theory Spec2Isabelle
  imports Complex_Main "HOL-Library.Word"
begin

section \<open>Exceptions\<close>

text \<open>
  Every exception the modelled code can meet is a value. \<open>Rejection\<close> stands for whatever
  the remote generation call rejects with (network or service error); \<open>Error\<close> carries the
  message of a \<^verbatim>\<open>new Error(...)\<close> thrown by the code itself.
\<close>

datatype exn =
    TypeError
  | SyntaxError
  | RangeError
  | NotSupportedError
  | InvalidStateError
  | InvalidCharacterError
  | Rejection
  | Error string

section \<open>PCM decoder: \<open>decodeAudio\<close> of the audio player component\<close>

type_synonym byte = "8 word"

subsection \<open>The platform's \<open>atob\<close>\<close>

text \<open>
  \<^verbatim>\<open>atob\<close> is the browser's forgiving-base64 decode: ASCII whitespace is removed; when
  the remaining length is a multiple of four, one or two trailing \<open>=\<close> are removed; a
  length that leaves remainder one, or any character outside the base64 alphabet, throws
  \<open>InvalidCharacterError\<close>; the characters are then read as 6-bit groups, and the 4 or 2
  left-over bits of a final group of two or three characters are discarded. The result is a
  binary string: one character with code 0..255 per decoded byte, which is what a
  \<^typ>\<open>string\<close> is here. (A JavaScript string can hold code units above 255; \<^verbatim>\<open>atob\<close>
  rejects them like any other character outside the alphabet.)
\<close>

definition ascii_whitespace :: "char \<Rightarrow> bool" where
  "ascii_whitespace c \<longleftrightarrow>
     c = CHR 0x09 \<or> c = CHR 0x0A \<or> c = CHR 0x0C \<or> c = CHR 0x0D \<or> c = CHR 0x20"

definition b64_value :: "char \<Rightarrow> nat option" where
  "b64_value c =
     (let n = (of_char c :: nat) in
      if 65 \<le> n \<and> n \<le> 90 then Some (n - 65)
      else if 97 \<le> n \<and> n \<le> 122 then Some (n - 71)
      else if 48 \<le> n \<and> n \<le> 57 then Some (n + 4)
      else if n = 43 then Some 62
      else if n = 47 then Some 63
      else None)"

definition strip_padding :: "string \<Rightarrow> string" where
  "strip_padding s =
     (if s \<noteq> [] \<and> length s mod 4 = 0 then
        (if last s = CHR ''='' \<and> last (butlast s) = CHR ''='' then butlast (butlast s)
         else if last s = CHR ''='' then butlast s
         else s)
      else s)"

fun sextets_to_bytes :: "nat list \<Rightarrow> string" where
  "sextets_to_bytes (a # b # c # d # rest) =
     (let n = ((a * 64 + b) * 64 + c) * 64 + d in
      char_of (n div 65536) # char_of (n div 256) # char_of n # sextets_to_bytes rest)"
| "sextets_to_bytes [a, b, c] =
     (let n = ((a * 64 + b) * 64 + c) div 4 in [char_of (n div 256), char_of n])"
| "sextets_to_bytes [a, b] = [char_of ((a * 64 + b) div 16)]"
| "sextets_to_bytes _ = []"

fun sextets :: "string \<Rightarrow> nat list option" where
  "sextets [] = Some []"
| "sextets (c # cs) =
     (case b64_value c of
        None \<Rightarrow> None
      | Some v \<Rightarrow> (case sextets cs of None \<Rightarrow> None | Some vs \<Rightarrow> Some (v # vs)))"

definition atob :: "string \<Rightarrow> exn + string" where
  "atob input =
     (let data = strip_padding (filter (\<lambda>c. \<not> ascii_whitespace c) input) in
      if length data mod 4 = 1 then Inl InvalidCharacterError
      else (case sextets data of
              None \<Rightarrow> Inl InvalidCharacterError
            | Some vs \<Rightarrow> Inr (sextets_to_bytes vs)))"

subsection \<open>Typed-array view and audio buffer\<close>

text \<open>
  \<^verbatim>\<open>new Int16Array(bytes.buffer)\<close> views the bytes as 16-bit signed integers in the
  platform's byte order (little-endian: low byte first). The constructor throws
  \<open>RangeError\<close> when the byte length of the buffer is not a multiple of the element size.
\<close>

fun int16_view :: "byte list \<Rightarrow> 16 word list" where
  "int16_view (lo # hi # rest) = word_cat hi lo # int16_view rest"
| "int16_view _ = []"

definition new_Int16Array :: "byte list \<Rightarrow> exn + 16 word list" where
  "new_Int16Array bytes =
     (if length bytes mod 2 = 0 then Inr (int16_view bytes) else Inl RangeError)"

text \<open>
  An \<^verbatim>\<open>AudioBuffer\<close> with its single channel. \<^verbatim>\<open>createBuffer\<close> throws
  \<open>NotSupportedError\<close> when an argument is zero (or outside the implementation's nominal
  range, which one channel at 24000 Hz never is); a fresh buffer holds silence. A sample is
  an integer in \<open>-32768..32767\<close> divided by \<open>2^15\<close>, which a 32-bit float holds exactly, so
  samples are modelled as reals without rounding.
\<close>

record audio_buffer =
  numberOfChannels :: nat
  sampleRate :: nat
  channelData :: "real list"

definition createBuffer :: "nat \<Rightarrow> nat \<Rightarrow> nat \<Rightarrow> exn + audio_buffer" where
  "createBuffer numChannels frameCount rate =
     (if numChannels = 0 \<or> frameCount = 0 \<or> rate = 0 then Inl NotSupportedError
      else Inr \<lparr>numberOfChannels = numChannels, sampleRate = rate,
                channelData = replicate frameCount 0\<rparr>)"

subsection \<open>Player state\<close>

datatype context_state = Suspended | Running

datatype playback = Unstarted | Playing real | Finished

text \<open>
  An \<^verbatim>\<open>AudioBufferSourceNode\<close>: \<open>Playing offset\<close> after \<^verbatim>\<open>start(0, offset)\<close>,
  \<open>Finished\<close> after \<^verbatim>\<open>stop()\<close> or the end of the buffer.
\<close>

record source_node =
  buffer :: "audio_buffer option"
  connected :: bool
  playback :: playback
  has_onended :: bool

record player =
  isPlaying :: bool
  hasError :: bool
  audioContextRef :: "context_state option"
  sourceRef :: "source_node option"
  audioBufferRef :: "audio_buffer option"
  startTimeRef :: real
  pauseTimeRef :: real

definition initial_player :: player where
  "initial_player =
     \<lparr>isPlaying = False, hasError = False, audioContextRef = None, sourceRef = None,
      audioBufferRef = None, startTimeRef = 0, pauseTimeRef = 0\<rparr>"

subsection \<open>\<open>decodeAudio\<close>\<close>

text \<open>
  The body of the \<^verbatim>\<open>try\<close> block after the audio context exists: base64 decode, copy of
  the character codes into a byte array, 16-bit view, buffer creation and normalisation of
  every sample by \<open>32768\<close>. Each of the two index loops writes element \<open>i\<close> from element \<open>i\<close>
  and is a \<^const>\<open>map\<close>.
\<close>

definition decode_samples :: "string \<Rightarrow> exn + audio_buffer" where
  "decode_samples base64Audio =
     (case atob base64Audio of
        Inl e \<Rightarrow> Inl e
      | Inr binaryString \<Rightarrow>
          (let bytes = map (\<lambda>c. (of_char c :: byte)) binaryString in
           case new_Int16Array bytes of
             Inl e \<Rightarrow> Inl e
           | Inr dataInt16 \<Rightarrow>
               (let frameCount = length dataInt16 in
                case createBuffer 1 frameCount 24000 of
                  Inl e \<Rightarrow> Inl e
                | Inr buf \<Rightarrow>
                    Inr (buf\<lparr>channelData :=
                           map (\<lambda>s. real_of_int (sint s) / 32768) dataInt16\<rparr>))))"

text \<open>
  \<open>decodeAudio\<close>: the context is created on first use (\<open>fresh\<close> is the state the platform
  gives a new context; its construction is taken to succeed); the \<^verbatim>\<open>catch\<close> block
  sets \<open>hasError\<close>, and no buffer is stored.
\<close>

definition decodeAudio :: "context_state \<Rightarrow> string \<Rightarrow> player \<Rightarrow> player" where
  "decodeAudio fresh base64Audio st =
     (let st1 = (case audioContextRef st of
                   None \<Rightarrow> st\<lparr>audioContextRef := Some fresh\<rparr>
                 | Some _ \<Rightarrow> st)
      in case decode_samples base64Audio of
           Inr buf \<Rightarrow> st1\<lparr>audioBufferRef := Some buf\<rparr>
         | Inl e \<Rightarrow> st1\<lparr>hasError := True\<rparr>)"

section \<open>Playback controller: \<open>play\<close>, \<open>pause\<close>, \<open>stop\<close>\<close>

text \<open>
  The two node methods that can throw. \<^verbatim>\<open>start(0, offset)\<close> throws \<open>RangeError\<close> on a
  negative offset and \<open>InvalidStateError\<close> on a node already started; \<^verbatim>\<open>stop()\<close>
  throws \<open>InvalidStateError\<close> on a node that was never started.
\<close>

definition node_start :: "real \<Rightarrow> source_node \<Rightarrow> exn + source_node" where
  "node_start offset node =
     (if playback node \<noteq> Unstarted then Inl InvalidStateError
      else if offset < 0 then Inl RangeError
      else Inr (node\<lparr>playback := Playing offset\<rparr>))"

definition node_stop :: "source_node \<Rightarrow> exn + source_node" where
  "node_stop node =
     (if playback node = Unstarted then Inl InvalidStateError
      else Inr (node\<lparr>playback := Finished\<rparr>))"

text \<open>
  \<open>play\<close>, with the reading of the context clock as argument. A suspended context is
  resumed first. An exception of \<^verbatim>\<open>start\<close> leaves \<open>play\<close> after \<open>sourceRef\<close> has been
  assigned and before anything else is written.
\<close>

definition play :: "real \<Rightarrow> player \<Rightarrow> player" where
  "play currentTime st =
     (case audioBufferRef st of
        None \<Rightarrow> st
      | Some buf \<Rightarrow>
          (case audioContextRef st of
             None \<Rightarrow> st
           | Some ctx \<Rightarrow>
               (let st1 = st\<lparr>audioContextRef := Some Running\<rparr>;
                    node = \<lparr>buffer = Some buf, connected = True, playback = Unstarted,
                            has_onended = False\<rparr>;
                    st2 = st1\<lparr>sourceRef := Some node\<rparr>;
                    offset = pauseTimeRef st2
                in case node_start offset node of
                     Inl e \<Rightarrow> st2
                   | Inr started \<Rightarrow>
                       st2\<lparr>sourceRef := Some (started\<lparr>has_onended := True\<rparr>),
                           startTimeRef := currentTime - offset,
                           isPlaying := True\<rparr>)))"

text \<open>
  The handler that \<open>play\<close> installs as \<^verbatim>\<open>onended\<close> of the source node. The platform runs
  it when the node's \<open>ended\<close> event is dispatched, which happens once the node has stopped
  playing: at the end of the buffer, and also after \<^verbatim>\<open>stop()\<close> was called on it.
\<close>

definition onended :: "player \<Rightarrow> player" where
  "onended st = st\<lparr>isPlaying := False, pauseTimeRef := 0\<rparr>"

definition pause :: "real \<Rightarrow> player \<Rightarrow> player" where
  "pause currentTime st =
     (case sourceRef st of
        None \<Rightarrow> st
      | Some node \<Rightarrow>
          if isPlaying st then
            (case node_stop node of
               Inl e \<Rightarrow> st
             | Inr stopped \<Rightarrow>
                 (let st1 = st\<lparr>sourceRef := Some (stopped\<lparr>connected := False\<rparr>)\<rparr>;
                      st2 = (case audioContextRef st1 of
                               None \<Rightarrow> st1
                             | Some ctx \<Rightarrow>
                                 st1\<lparr>pauseTimeRef := currentTime - startTimeRef st1\<rparr>)
                  in st2\<lparr>isPlaying := False\<rparr>))
          else st)"

definition stop :: "player \<Rightarrow> player" where
  "stop st =
     (let st1 = (case sourceRef st of
                   None \<Rightarrow> st
                 | Some node \<Rightarrow>
                     (case node_stop node of
                        Inl e \<Rightarrow> st
                      | Inr stopped \<Rightarrow> st\<lparr>sourceRef := Some stopped\<rparr>))
      in st1\<lparr>pauseTimeRef := 0, isPlaying := False\<rparr>)"

definition handleToggle :: "real \<Rightarrow> player \<Rightarrow> player" where
  "handleToggle currentTime st =
     (if isPlaying st then pause currentTime st else play currentTime st)"

text \<open>The offset at which the current source node was started, if it was.\<close>

definition started_offset :: "player \<Rightarrow> real option" where
  "started_offset st =
     (case sourceRef st of
        None \<Rightarrow> None
      | Some node \<Rightarrow> (case playback node of Playing offset \<Rightarrow> Some offset | _ \<Rightarrow> None))"

subsection \<open>The \<open>ended\<close> event and timed calls\<close>

text \<open>The length of a buffer in seconds.\<close>

definition duration :: "audio_buffer \<Rightarrow> real" where
  "duration buf = real (length (channelData buf)) / real (sampleRate buf)"

text \<open>
  Whether the \<open>ended\<close> event of the node in \<open>sourceRef\<close> is due at clock \<open>now\<close>: the node
  carries the handler of \<open>play\<close> and has stopped playing, because \<^verbatim>\<open>stop()\<close> was called
  on it or because its buffer has run out. A node started with offset \<open>o\<close> at clock \<open>c\<close>
  plays until \<open>c + (duration - o)\<close>; \<open>play\<close> has set \<open>startTimeRef\<close> to \<open>c - o\<close>, so
  that clock is \<open>startTimeRef + duration\<close>.
\<close>

definition ended_due :: "real \<Rightarrow> player \<Rightarrow> bool" where
  "ended_due now st =
     (case sourceRef st of
        None \<Rightarrow> False
      | Some node \<Rightarrow>
          has_onended node \<and>
          (case playback node of
             Unstarted \<Rightarrow> False
           | Finished \<Rightarrow> True
           | Playing offset \<Rightarrow>
               (case buffer node of
                  None \<Rightarrow> False
                | Some buf \<Rightarrow> startTimeRef st + duration buf \<le> now)))"

text \<open>
  The platform's dispatch of that event: the node has finished and the handler runs. The
  handler's two writes are idempotent, so it does not matter that a node whose event was
  delivered before is not told apart.
\<close>

definition deliver_ended :: "real \<Rightarrow> player \<Rightarrow> player" where
  "deliver_ended now st =
     (if ended_due now st then
        (case sourceRef st of
           None \<Rightarrow> st
         | Some node \<Rightarrow> onended (st\<lparr>sourceRef := Some (node\<lparr>playback := Finished\<rparr>)\<rparr>))
      else st)"

text \<open>
  A call of the component at clock \<open>now\<close>, made after the platform has dispatched the
  \<open>ended\<close> event that is due by then; a session is a sequence of such calls.
\<close>

datatype control = Play | Pause | Stop

fun perform :: "real \<times> control \<Rightarrow> player \<Rightarrow> player" where
  "perform (now, Play) st = play now (deliver_ended now st)"
| "perform (now, Pause) st = pause now (deliver_ended now st)"
| "perform (now, Stop) st = stop (deliver_ended now st)"

definition session :: "(real \<times> control) list \<Rightarrow> player \<Rightarrow> player" where
  "session calls st = fold perform calls st"

section \<open>Generation pipeline: the service functions and \<open>handleProcess\<close>\<close>

subsection \<open>Values and records\<close>

text \<open>
  What \<^verbatim>\<open>JSON.parse\<close> can return, and \<open>JUndefined\<close> for the read of a property that is
  not there. The TypeScript types of the pipeline are erased at run time, so a field typed
  \<^verbatim>\<open>string\<close> holds whatever the parsed response held. An object is the list of its own
  properties, each key once.
\<close>

datatype jsval =
    JUndefined
  | JNull
  | JBool bool
  | JNumber rat
  | JString string
  | JArray "jsval list"
  | JObject "(string \<times> jsval) list"

text \<open>
  Property read \<^verbatim>\<open>v.key\<close> for the three keys of the response: a \<open>TypeError\<close> on
  \<^verbatim>\<open>null\<close> and \<^verbatim>\<open>undefined\<close>, \<^verbatim>\<open>undefined\<close> on a value without that property.
\<close>

fun get_prop :: "jsval \<Rightarrow> string \<Rightarrow> exn + jsval" where
  "get_prop JUndefined key = Inl TypeError"
| "get_prop JNull key = Inl TypeError"
| "get_prop (JObject props) key =
     Inr (case map_of props key of None \<Rightarrow> JUndefined | Some v \<Rightarrow> v)"
| "get_prop v key = Inr JUndefined"

text \<open>
  \<^verbatim>\<open>v.slice(b, e)\<close> with non-negative bounds: strings and arrays have the method, every
  other value gives a \<open>TypeError\<close> (the read of \<^verbatim>\<open>slice\<close> on \<^verbatim>\<open>undefined\<close>, or the
  call of something that is not a function).
\<close>

fun slice_js :: "jsval \<Rightarrow> nat \<Rightarrow> nat \<Rightarrow> exn + jsval" where
  "slice_js (JString s) b e = Inr (JString (take (e - b) (drop b s)))"
| "slice_js (JArray xs) b e = Inr (JArray (take (e - b) (drop b xs)))"
| "slice_js v b e = Inl TypeError"

datatype AppState =
    IDLE
  | RECORDING
  | TRANSCRIBING
  | PROCESSING_TEXT
  | GENERATING_IMAGE
  | GENERATING_AUDIO
  | COMPLETED
  | ERROR

record GeneratedContent =
  text' :: jsval
  spatialDescription :: jsval
  imageUrl :: "string option"
  audioUrl :: "string option"

type_synonym log_entry = "string \<times> exn"

text \<open>
  The state of the \<open>App\<close> component that the pipeline reads and writes, and the lines
  written with \<^verbatim>\<open>console.error\<close> (label and exception; the label is empty where the
  exception is logged alone).
\<close>

record app =
  query :: string
  appState :: AppState
  content :: "GeneratedContent option"
  error :: "string option"
  console :: "log_entry list"

definition initial_app :: app where
  "initial_app = \<lparr>query = [], appState = IDLE, content = None, error = None, console = []\<rparr>"

subsection \<open>Replies of the remote service\<close>

text \<open>
  A call of \<^verbatim>\<open>ai.models.generateContent\<close> settles as \<open>Inl e\<close> (rejected) or \<open>Inr r\<close>. What
  the code reads of a reply: for the explanation, \<^verbatim>\<open>response.text\<close> and what
  \<^verbatim>\<open>JSON.parse\<close> makes of it; for diagram and speech,
  \<^verbatim>\<open>response.candidates?.[0]?.content?.parts\<close>, \<open>None\<close> when a link of the chain is
  missing, and in each part \<^verbatim>\<open>inlineData\<close> and its \<^verbatim>\<open>data\<close>.
\<close>

datatype reply_text =
    NoText
  | NotJSON
  | Parsed jsval

record inline_data =
  data :: "string option"

record part =
  inlineData :: "inline_data option"

type_synonym reply_parts = "part list option"

subsection \<open>\<open>generateExplanation\<close>\<close>

definition explanation_try :: "exn + reply_text \<Rightarrow> exn + jsval" where
  "explanation_try reply =
     (case reply of
        Inl e \<Rightarrow> Inl e
      | Inr NoText \<Rightarrow> Inl (Error ''Empty response text from Gemini.'')
      | Inr NotJSON \<Rightarrow> Inl SyntaxError
      | Inr (Parsed v) \<Rightarrow> Inr v)"

text \<open>Each service function returns the lines it logged and how its promise settled.\<close>

definition generateExplanation :: "exn + reply_text \<Rightarrow> log_entry list \<times> (exn + jsval)" where
  "generateExplanation reply =
     (case explanation_try reply of
        Inr v \<Rightarrow> ([], Inr v)
      | Inl e \<Rightarrow> ([(''Explanation generation failed'', e)], Inl e))"

subsection \<open>\<open>generateDiagram\<close>\<close>

fun first_image :: "part list \<Rightarrow> string option" where
  "first_image [] = None"
| "first_image (p # ps) =
     (case inlineData p of
        None \<Rightarrow> first_image ps
      | Some d \<Rightarrow>
          (case data d of
             None \<Rightarrow> first_image ps
           | Some s \<Rightarrow> if s = [] then first_image ps
                       else Some (''data:image/png;base64,'' @ s)))"

definition diagram_try :: "exn + reply_parts \<Rightarrow> exn + string" where
  "diagram_try reply =
     (case reply of
        Inl e \<Rightarrow> Inl e
      | Inr None \<Rightarrow> Inl (Error ''No image data found in response.'')
      | Inr (Some ps) \<Rightarrow>
          (case first_image ps of
             Some url \<Rightarrow> Inr url
           | None \<Rightarrow> Inl (Error ''No image data found in response.'')))"

definition generateDiagram :: "exn + reply_parts \<Rightarrow> log_entry list \<times> (exn + string)" where
  "generateDiagram reply =
     (case diagram_try reply of
        Inr url \<Rightarrow> ([], Inr url)
      | Inl e \<Rightarrow> ([(''Image generation failed'', e)], Inr []))"

subsection \<open>\<open>generateSpeech\<close>\<close>

datatype modality = TEXT | IMAGE | AUDIO

record speech_request =
  model :: string
  contents :: "jsval list list"
  responseModalities :: "modality list"
  voiceName :: string

text \<open>The request that \<^verbatim>\<open>generateSpeech(text)\<close> sends.\<close>

definition generateSpeech_request :: "jsval \<Rightarrow> speech_request" where
  "generateSpeech_request txt =
     \<lparr>model = ''gemini-2.5-flash-preview-tts'', contents = [[txt]],
      responseModalities = [AUDIO], voiceName = ''Fenrir''\<rparr>"

definition speech_try :: "exn + reply_parts \<Rightarrow> exn + string option" where
  "speech_try reply =
     (case reply of
        Inl e \<Rightarrow> Inl e
      | Inr None \<Rightarrow> Inr None
      | Inr (Some []) \<Rightarrow> Inr None
      | Inr (Some (p # ps)) \<Rightarrow>
          (case inlineData p of
             None \<Rightarrow> Inr None
           | Some d \<Rightarrow>
               (case data d of
                  None \<Rightarrow> Inr None
                | Some base64Audio \<Rightarrow>
                    if base64Audio = [] then Inr None else Inr (Some base64Audio))))"

definition generateSpeech ::
  "exn + reply_parts \<Rightarrow> log_entry list \<times> (exn + string option)" where
  "generateSpeech reply =
     (case speech_try reply of
        Inr r \<Rightarrow> ([], Inr r)
      | Inl e \<Rightarrow> ([(''Speech generation failed'', e)], Inr None))"

subsection \<open>\<open>handleProcess\<close>\<close>

datatype call = GenerateDiagram jsval | GenerateSpeech speech_request

text \<open>The synchronous part before the \<^verbatim>\<open>await\<close>, for a non-empty query.\<close>

definition handleProcess_start :: "app \<Rightarrow> app" where
  "handleProcess_start st = st\<lparr>appState := PROCESSING_TEXT, error := None, content := None\<rparr>"

text \<open>The \<^verbatim>\<open>catch\<close> block.\<close>

definition handleProcess_catch :: "exn \<Rightarrow> app \<Rightarrow> app" where
  "handleProcess_catch err st =
     st\<lparr>console := console st @ [([], err)],
        error := Some ''Failed to generate content. Please try again or check your API key.'',
        appState := ERROR\<rparr>"

text \<open>
  The rest of the \<^verbatim>\<open>try\<close> block once \<open>generateExplanation\<close> has settled, with the calls
  it issues without awaiting them. The first property read throws on \<^verbatim>\<open>null\<close>; the
  \<^verbatim>\<open>slice\<close> is evaluated after \<open>generateDiagram\<close> has been called.
\<close>

definition handleProcess_resume ::
  "log_entry list \<times> (exn + jsval) \<Rightarrow> app \<Rightarrow> app \<times> call list" where
  "handleProcess_resume settled st0 =
     (let st = st0\<lparr>console := console st0 @ fst settled\<rparr> in
      case snd settled of
        Inl e \<Rightarrow> (handleProcess_catch e st, [])
      | Inr explanationData \<Rightarrow>
          (case get_prop explanationData ''explanation'' of
             Inl e \<Rightarrow> (handleProcess_catch e st, [])
           | Inr explanation \<Rightarrow>
               (case get_prop explanationData ''spatialDescription'' of
                  Inl e \<Rightarrow> (handleProcess_catch e st, [])
                | Inr spatial \<Rightarrow>
                    (let initialContent =
                           \<lparr>text' = explanation, spatialDescription = spatial,
                            imageUrl = None, audioUrl = None\<rparr>;
                         st1 = st\<lparr>content := Some initialContent\<rparr>;
                         st2 = st1\<lparr>appState := COMPLETED\<rparr>
                     in case get_prop explanationData ''imagePrompt'' of
                          Inl e \<Rightarrow> (handleProcess_catch e st2, [])
                        | Inr imagePrompt \<Rightarrow>
                            (case slice_js explanation 0 800 of
                               Inl e \<Rightarrow>
                                 (handleProcess_catch e st2, [GenerateDiagram imagePrompt])
                             | Inr spoken \<Rightarrow>
                                 (st2, [GenerateDiagram imagePrompt,
                                        GenerateSpeech (generateSpeech_request spoken)]))))))"

definition handleProcess :: "exn + reply_text \<Rightarrow> app \<Rightarrow> app \<times> call list" where
  "handleProcess reply st =
     (if query st = [] then (st, [])
      else handleProcess_resume (generateExplanation reply) (handleProcess_start st))"

text \<open>
  The continuations attached to the two promises: \<^verbatim>\<open>.then\<close> with the functional
  update of \<open>content\<close>, and \<^verbatim>\<open>.catch\<close>.
\<close>

definition diagram_then :: "string \<Rightarrow> app \<Rightarrow> app" where
  "diagram_then url st =
     (if url \<noteq> [] then
        st\<lparr>content := (case content st of
                          None \<Rightarrow> None
                        | Some prev \<Rightarrow> Some (prev\<lparr>imageUrl := Some url\<rparr>))\<rparr>
      else st)"

definition diagram_catch :: "exn \<Rightarrow> app \<Rightarrow> app" where
  "diagram_catch err st = st\<lparr>console := console st @ [(''Diagram generation failed'', err)]\<rparr>"

definition diagram_settled :: "log_entry list \<times> (exn + string) \<Rightarrow> app \<Rightarrow> app" where
  "diagram_settled settled st0 =
     (let st = st0\<lparr>console := console st0 @ fst settled\<rparr> in
      case snd settled of
        Inr url \<Rightarrow> diagram_then url st
      | Inl err \<Rightarrow> diagram_catch err st)"

definition speech_then :: "string option \<Rightarrow> app \<Rightarrow> app" where
  "speech_then audioBase64 st =
     (case audioBase64 of
        None \<Rightarrow> st
      | Some b \<Rightarrow>
          if b \<noteq> [] then
            st\<lparr>content := (case content st of
                              None \<Rightarrow> None
                            | Some prev \<Rightarrow> Some (prev\<lparr>audioUrl := Some b\<rparr>))\<rparr>
          else st)"

definition speech_catch :: "exn \<Rightarrow> app \<Rightarrow> app" where
  "speech_catch err st = st\<lparr>console := console st @ [(''Speech generation failed'', err)]\<rparr>"

definition speech_settled :: "log_entry list \<times> (exn + string option) \<Rightarrow> app \<Rightarrow> app" where
  "speech_settled settled st0 =
     (let st = st0\<lparr>console := console st0 @ fst settled\<rparr> in
      case snd settled of
        Inr audioBase64 \<Rightarrow> speech_then audioBase64 st
      | Inl err \<Rightarrow> speech_catch err st)"

definition handleTextChange :: "string \<Rightarrow> app \<Rightarrow> app" where
  "handleTextChange v st =
     (let st1 = st\<lparr>query := v\<rparr> in
      case error st1 of
        None \<Rightarrow> st1
      | Some msg \<Rightarrow> if msg \<noteq> [] then st1\<lparr>error := None\<rparr> else st1)"

subsection \<open>Runs of the pipeline\<close>

text \<open>
  The events that write \<open>query\<close>, \<open>content\<close>, \<open>appState\<close> and \<open>error\<close> through the
  pipeline, in any order and number: an edit of the query, the start of \<open>handleProcess\<close>,
  and the settling of each of the three remote calls with any reply.
\<close>

datatype event =
    TextChange string
  | ProcessStart
  | ExplanationSettled "exn + reply_text"
  | DiagramSettled "exn + reply_parts"
  | SpeechSettled "exn + reply_parts"

fun step :: "event \<Rightarrow> app \<Rightarrow> app" where
  "step (TextChange v) st = handleTextChange v st"
| "step ProcessStart st = (if query st = [] then st else handleProcess_start st)"
| "step (ExplanationSettled reply) st = fst (handleProcess_resume (generateExplanation reply) st)"
| "step (DiagramSettled reply) st = diagram_settled (generateDiagram reply) st"
| "step (SpeechSettled reply) st = speech_settled (generateSpeech reply) st"

definition run :: "event list \<Rightarrow> app \<Rightarrow> app" where
  "run evs st = fold step evs st"

text \<open>Neither URL field of the result aggregate holds the empty string.\<close>

definition urls_nonempty :: "app \<Rightarrow> bool" where
  "urls_nonempty st =
     (case content st of
        None \<Rightarrow> True
      | Some c \<Rightarrow> imageUrl c \<noteq> Some [] \<and> audioUrl c \<noteq> Some [])"

section \<open>Definitions used in the statements\<close>

text \<open>
  The 16-bit signed little-endian integer that two consecutive bytes of the payload spell,
  written arithmetically: low byte plus 256 times high byte, read in two's complement. It is
  the yardstick for the samples that \<open>decodeAudio\<close> obtains through the typed-array view.
\<close>

definition signed_le16 :: "char \<Rightarrow> char \<Rightarrow> int" where
  "signed_le16 lo hi =
     (let u = of_char lo + 256 * of_char hi in if u < 32768 then u else u - 65536)"

text \<open>What a diagram result, and what a speech result, has to leave alone in the aggregate.\<close>

definition kept_by_diagram :: "GeneratedContent \<Rightarrow> jsval \<times> jsval \<times> string option" where
  "kept_by_diagram c = (text' c, spatialDescription c, audioUrl c)"

definition kept_by_speech :: "GeneratedContent \<Rightarrow> jsval \<times> jsval \<times> string option" where
  "kept_by_speech c = (text' c, spatialDescription c, imageUrl c)"

subsection \<open>Concrete inputs\<close>

text \<open>
  A buffer of three silent samples, and a player whose last \<open>play\<close> threw in
  \<^verbatim>\<open>start\<close>: its source node was assigned and never started.
\<close>

definition silence :: audio_buffer where
  "silence = \<lparr>numberOfChannels = 1, sampleRate = 24000, channelData = [0, 0, 0]\<rparr>"

text \<open>
  A payload of 192000 characters \<open>A\<close>: 144000 zero bytes, 72000 silent samples, three
  seconds at 24000 Hz.
\<close>

definition long_payload :: string where
  "long_payload = replicate 192000 (CHR ''A'')"

definition three_seconds :: audio_buffer where
  "three_seconds = \<lparr>numberOfChannels = 1, sampleRate = 24000, channelData = replicate 72000 0\<rparr>"

definition failed_start :: player where
  "failed_start =
     \<lparr>isPlaying = False, hasError = False, audioContextRef = Some Running,
      sourceRef = Some \<lparr>buffer = Some silence, connected = True, playback = Unstarted,
                         has_onended = False\<rparr>,
      audioBufferRef = Some silence, startTimeRef = 0, pauseTimeRef = - 1\<rparr>"

text \<open>
  The scenario of the specification: the query, a complete explanation response, a long
  one, replies of the diagram and speech calls that carry data, a reply whose only part
  carries none, the state that shows the explanation, and that state after a new query has
  discarded the aggregate.
\<close>

definition asked :: app where
  "asked = initial_app\<lparr>query := ''Explain MoE routing''\<rparr>"

definition moe_response :: jsval where
  "moe_response =
     JObject [(''explanation'', JString ''# MoE''),
              (''spatialDescription'', JString ''Flow starts top-left''),
              (''imagePrompt'', JString ''flowchart of router'')]"

definition long_response :: jsval where
  "long_response =
     JObject [(''explanation'', JString (replicate 1000 (CHR ''x''))),
              (''spatialDescription'', JString ''Flow starts top-left''),
              (''imagePrompt'', JString ''flowchart of router'')]"

definition png_reply :: "exn + reply_parts" where
  "png_reply =
     Inr (Some [\<lparr>inlineData = None\<rparr>,
                \<lparr>inlineData = Some \<lparr>data = Some ''iVBORw0KGgo=''\<rparr>\<rparr>])"

definition text_only_reply :: "exn + reply_parts" where
  "text_only_reply = Inr (Some [\<lparr>inlineData = None\<rparr>])"

definition pcm_reply :: "exn + reply_parts" where
  "pcm_reply = Inr (Some [\<lparr>inlineData = Some \<lparr>data = Some ''AID/fw==''\<rparr>\<rparr>])"

definition shown :: app where
  "shown = fst (handleProcess (Inr (Parsed moe_response)) asked)"

definition discarded :: app where
  "discarded = handleProcess_start shown"

section \<open>The PCM decoder\<close>

subsection \<open>The 16-bit view, arithmetically\<close>

lemma uint_word_cat_bytes:
  "uint (word_cat (hi::byte) (lo::byte) :: 16 word) = uint hi * 256 + uint lo"
proof -
  have lo: "0 \<le> uint lo" "uint lo < 256" using uint_lt2p [of lo] by simp_all
  have hi: "0 \<le> uint hi" "uint hi < 256" using uint_lt2p [of hi] by simp_all
  have c: "concat_bit 8 (uint lo) (uint hi) = uint lo + 256 * uint hi"
    using lo by (simp add: concat_bit_eq take_bit_int_eq_self push_bit_eq_mult)
  have t: "take_bit 16 (uint lo + 256 * uint hi) = uint lo + 256 * uint hi"
    using lo hi by (intro take_bit_int_eq_self) auto
  have "uint (word_cat hi lo :: 16 word) = take_bit 16 (concat_bit 8 (uint lo) (uint hi))"
    unfolding word_cat_eq' by (simp only: uint_word_of_int_eq len_bit0 len_num1 One_nat_def) simp
  then show ?thesis using c t by simp
qed

lemma sint16_uint:
  "sint (w :: 16 word) = (if uint w < 32768 then uint w else uint w - 65536)"
proof -
  have b: "0 \<le> uint w" "uint w < 65536" using uint_lt2p [of w] by simp_all
  have "sint w = (uint w + 32768) mod 65536 - 32768"
    by (simp add: sint_uint signed_take_bit_eq_take_bit_shift take_bit_eq_mod)
  moreover have "(u + 32768) mod 65536 - 32768 = (if u < 32768 then u else u - 65536)"
    if "0 \<le> u" "u < 65536" for u :: int
  proof (cases "u < 32768")
    case True
    with that show ?thesis by simp
  next
    case False
    have e: "u + 32768 = (u - 32768) + 65536" by arith
    have "(u + 32768) mod 65536 = (u - 32768) mod 65536"
      unfolding e by (rule mod_add_self2)
    also have "\<dots> = u - 32768" using that False by simp
    finally show ?thesis using False by simp
  qed
  ultimately show ?thesis using b by simp
qed

lemma uint_of_char_byte: "uint (of_char c :: byte) = of_char c"
proof -
  have "(of_char c :: byte) = word_of_int (of_char c)"
    by (simp only: of_int_of_char)
  then have "uint (of_char c :: byte) = take_bit 8 (of_char c :: int)"
    by (simp only: uint_word_of_int_eq) simp
  also have "\<dots> = of_char c mod 256"
    by (simp add: take_bit_eq_mod)
  finally show ?thesis by simp
qed

lemma sint_word_cat_chars:
  "sint (word_cat (of_char hi :: byte) (of_char lo :: byte) :: 16 word) = signed_le16 lo hi"
  by (simp add: sint16_uint uint_word_cat_bytes uint_of_char_byte signed_le16_def Let_def
      add.commute mult.commute)

lemma length_int16_view: "length (int16_view bs) = length bs div 2"
  by (induction bs rule: int16_view.induct) auto

lemma nth_int16_view:
  "2 * i + 1 < length bs \<Longrightarrow> int16_view bs ! i = word_cat (bs ! (2 * i + 1)) (bs ! (2 * i))"
  by (induction bs arbitrary: i rule: int16_view.induct) (auto simp: nth_Cons split: nat.splits)

subsection \<open>The three ways through the \<open>try\<close> block after \<open>atob\<close>\<close>

lemma decode_samples_even:
  assumes "atob base64Audio = Inr binaryString"
    and "even (length binaryString)"
    and "binaryString \<noteq> []"
  shows "decode_samples base64Audio =
           Inr \<lparr>numberOfChannels = 1, sampleRate = 24000,
                channelData = map (\<lambda>s. real_of_int (sint s) / 32768)
                                  (int16_view (map of_char binaryString))\<rparr>"
proof -
  have "length binaryString \<noteq> 0" "length binaryString \<noteq> 1"
    using assms(2,3) by auto
  then have "2 \<le> length binaryString" by arith
  then have "length binaryString div 2 \<noteq> 0" by arith
  then show ?thesis using assms
    by (simp add: decode_samples_def new_Int16Array_def createBuffer_def length_int16_view
        even_iff_mod_2_eq_zero)
qed

lemma decode_samples_odd:
  assumes "atob base64Audio = Inr binaryString" and "odd (length binaryString)"
  shows "decode_samples base64Audio = Inl RangeError"
  using assms by (simp add: decode_samples_def new_Int16Array_def odd_iff_mod_2_eq_one)

lemma decode_samples_empty:
  assumes "atob base64Audio = Inr []"
  shows "decode_samples base64Audio = Inl NotSupportedError"
  using assms by (simp add: decode_samples_def new_Int16Array_def createBuffer_def)

subsection \<open>Payloads\<close>

lemmas atob_unfold = atob_def strip_padding_def ascii_whitespace_def b64_value_def
  char_of_def bit_Suc_0_iff

lemma atob_three_bytes: "atob ''AAAA'' = Inr [CHR 0x00, CHR 0x00, CHR 0x00]"
  by (simp add: atob_unfold)

lemma atob_empty: "atob [] = Inr []"
  by (simp add: atob_unfold)

lemma atob_blank: "atob '' '' = Inr []"
  by (simp add: atob_unfold)

text \<open>A payload of \<open>8k\<close> characters \<open>A\<close> decodes to \<open>3k\<close> silent samples.\<close>

lemma sextets_replicate_A: "sextets (replicate n (CHR ''A'')) = Some (replicate n 0)"
  by (induction n) (simp_all add: b64_value_def)

lemma sextets_to_bytes_zero:
  "sextets_to_bytes (replicate (4 * k) 0) = replicate (3 * k) (CHR 0x00)"
proof (induction k)
  case 0
  show ?case by simp
next
  case (Suc k)
  have "replicate (4 * Suc k) (0::nat) = 0 # 0 # 0 # 0 # replicate (4 * k) 0"
    by (simp add: numeral_eq_Suc)
  moreover have "replicate (3 * Suc k) (CHR 0x00) =
      CHR 0x00 # CHR 0x00 # CHR 0x00 # replicate (3 * k) (CHR 0x00)"
    by (simp add: numeral_eq_Suc)
  ultimately show ?case using Suc by (simp add: char_of_def)
qed

lemma atob_replicate_A:
  "atob (replicate (4 * k) (CHR ''A'')) = Inr (replicate (3 * k) (CHR 0x00))"
proof -
  have f: "filter (\<lambda>c. \<not> ascii_whitespace c) (replicate (4 * k) (CHR ''A''))
             = replicate (4 * k) (CHR ''A'')"
    by (simp add: ascii_whitespace_def filter_replicate)
  have p: "strip_padding (replicate (4 * k) (CHR ''A'')) = replicate (4 * k) (CHR ''A'')"
    by (simp add: strip_padding_def)
  show ?thesis
    by (simp add: atob_def f p sextets_replicate_A sextets_to_bytes_zero)
qed

lemma int16_view_zero: "int16_view (replicate (2 * m) 0) = replicate m 0"
  by (induction m) (simp_all add: word_cat_eq)

lemma decode_samples_replicate_A:
  assumes "0 < k"
  shows "decode_samples (replicate (8 * k) (CHR ''A'')) =
           Inr \<lparr>numberOfChannels = 1, sampleRate = 24000, channelData = replicate (3 * k) 0\<rparr>"
proof -
  have a: "atob (replicate (8 * k) (CHR ''A'')) = Inr (replicate (6 * k) (CHR 0x00))"
    using atob_replicate_A [of "2 * k"] by simp
  have v: "int16_view (replicate (6 * k) 0) = replicate (3 * k) 0"
    using int16_view_zero [of "3 * k"] by simp
  show ?thesis
    using assms by (simp add: decode_samples_def a v new_Int16Array_def createBuffer_def)
qed

lemma decodeAudio_long_payload:
  "decodeAudio Suspended long_payload initial_player =
     \<lparr>isPlaying = False, hasError = False, audioContextRef = Some Suspended,
      sourceRef = None, audioBufferRef = Some three_seconds,
      startTimeRef = 0, pauseTimeRef = 0\<rparr>"
proof -
  have "decode_samples long_payload = Inr three_seconds"
    using decode_samples_replicate_A [of 24000]
    by (simp add: long_payload_def three_seconds_def)
  then show ?thesis
    by (simp add: decodeAudio_def initial_player_def)
qed

lemma duration_three_seconds: "duration three_seconds = 3"
  by (simp add: duration_def three_seconds_def)

subsection \<open>Even payloads\<close>

text \<open>
  C6, as the code has it. For every payload that \<open>atob\<close> decodes to an even, non-zero
  number of bytes, \<open>decodeAudio\<close> stores a buffer, raises no error flag, the buffer holds
  byte length / 2 samples, and sample \<open>i\<close> is the 16-bit signed little-endian integer
  spelled by bytes \<open>2i\<close> and \<open>2i+1\<close>, divided by 32768.
\<close>

theorem decodeAudio_even_payload:
  assumes "atob base64Audio = Inr binaryString"
    and "even (length binaryString)"
    and "binaryString \<noteq> []"
  shows "\<exists>buf. audioBufferRef (decodeAudio fresh base64Audio st) = Some buf
           \<and> hasError (decodeAudio fresh base64Audio st) = hasError st
           \<and> length (channelData buf) = length binaryString div 2
           \<and> (\<forall>i < length binaryString div 2.
                 channelData buf ! i =
                   real_of_int (signed_le16 (binaryString ! (2 * i)) (binaryString ! (2 * i + 1)))
                     / 32768)"
proof -
  let ?ws = "int16_view (map of_char binaryString)"
  let ?buf = "\<lparr>numberOfChannels = 1, sampleRate = 24000,
                channelData = map (\<lambda>s. real_of_int (sint s) / 32768) ?ws\<rparr>"
  have d: "decode_samples base64Audio = Inr ?buf"
    using assms by (rule decode_samples_even)
  have len: "length ?ws = length binaryString div 2"
    by (simp add: length_int16_view)
  have nth: "channelData ?buf ! i =
               real_of_int (signed_le16 (binaryString ! (2 * i)) (binaryString ! (2 * i + 1)))
                 / 32768"
    if "i < length binaryString div 2" for i
  proof -
    have b: "2 * i + 1 < length (map of_char binaryString :: byte list)"
      using that assms(2) by (auto elim!: evenE)
    have "?ws ! i = word_cat (of_char (binaryString ! (2 * i + 1)) :: byte)
                             (of_char (binaryString ! (2 * i)) :: byte)"
      using nth_int16_view [OF b] b by simp
    then have v: "sint (?ws ! i) =
                    signed_le16 (binaryString ! (2 * i)) (binaryString ! (2 * i + 1))"
      by (simp only: sint_word_cat_chars)
    have "channelData ?buf ! i = real_of_int (sint (?ws ! i)) / 32768"
      using that len by (simp only: audio_buffer.select_convs nth_map)
    then show ?thesis
      by (simp only: v)
  qed
  have "audioBufferRef (decodeAudio fresh base64Audio st) = Some ?buf"
    using d by (simp add: decodeAudio_def Let_def split: option.splits)
  moreover have "hasError (decodeAudio fresh base64Audio st) = hasError st"
    using d by (simp add: decodeAudio_def Let_def split: option.splits)
  ultimately show ?thesis
    using len nth by (intro exI [of _ ?buf]) simp
qed

text \<open>
  Witness for C6: the payload \<open>AID/fw==\<close> is the four bytes 00 80 FF 7F, that is the
  samples -32768 and 32767.
\<close>

theorem decodeAudio_even_payload_witness:
  "atob ''AID/fw=='' = Inr [CHR 0x00, CHR 0x80, CHR 0xFF, CHR 0x7F]
   \<and> (\<exists>buf. audioBufferRef (decodeAudio Suspended ''AID/fw=='' initial_player) = Some buf
          \<and> length (channelData buf) = 2
          \<and> channelData buf ! 0 = - 1
          \<and> channelData buf ! 1 = 32767 / 32768)"
proof -
  have a: "atob ''AID/fw=='' = Inr [CHR 0x00, CHR 0x80, CHR 0xFF, CHR 0x7F]"
    by (simp add: atob_unfold)
  have e: "even (length [CHR 0x00, CHR 0x80, CHR 0xFF, CHR 0x7F])" by simp
  have n: "[CHR 0x00, CHR 0x80, CHR 0xFF, CHR 0x7F] \<noteq> []" by simp
  from decodeAudio_even_payload [OF a e n, of Suspended initial_player]
  obtain buf where
    b: "audioBufferRef (decodeAudio Suspended ''AID/fw=='' initial_player) = Some buf"
    and l: "length (channelData buf) = 2"
    and s: "\<forall>i<2. channelData buf ! i =
              real_of_int (signed_le16 ([CHR 0x00, CHR 0x80, CHR 0xFF, CHR 0x7F] ! (2 * i))
                                       ([CHR 0x00, CHR 0x80, CHR 0xFF, CHR 0x7F] ! (2 * i + 1)))
                / 32768"
    by auto
  from s have "channelData buf ! 0 =
      real_of_int (signed_le16 ([CHR 0x00, CHR 0x80, CHR 0xFF, CHR 0x7F] ! (2 * 0))
                               ([CHR 0x00, CHR 0x80, CHR 0xFF, CHR 0x7F] ! (2 * 0 + 1))) / 32768"
    by (rule allE [of _ 0]) simp
  then have s0: "channelData buf ! 0 = - 1"
    by (simp add: signed_le16_def)
  from s have "channelData buf ! 1 =
      real_of_int (signed_le16 ([CHR 0x00, CHR 0x80, CHR 0xFF, CHR 0x7F] ! (2 * 1))
                               ([CHR 0x00, CHR 0x80, CHR 0xFF, CHR 0x7F] ! (2 * 1 + 1))) / 32768"
    by (rule allE [of _ 1]) simp
  then have s1: "channelData buf ! 1 = 32767 / 32768"
    by (simp add: signed_le16_def)
  show ?thesis using a b l s0 s1 by blast
qed

text \<open>
  Counterexample to C6 as stated: the empty payload is valid base64 of even byte length 0,
  yet \<^verbatim>\<open>createBuffer(1, 0, 24000)\<close> throws, the error flag is raised and no buffer (so no
  sample count) is produced. A payload of one blank, which the component is rendered
  with since it is a non-empty string, decodes to the same zero bytes.
\<close>

theorem decodeAudio_empty_payload_counterexample:
  "atob [] = Inr [] \<and> even (length ([] :: string))
   \<and> audioBufferRef (decodeAudio Suspended [] initial_player) = None
   \<and> hasError (decodeAudio Suspended [] initial_player)
   \<and> atob '' '' = Inr []
   \<and> audioBufferRef (decodeAudio Suspended '' '' initial_player) = None
   \<and> hasError (decodeAudio Suspended '' '' initial_player)"
  by (simp add: decode_samples_empty [OF atob_empty] decode_samples_empty [OF atob_blank]
      atob_empty atob_blank decodeAudio_def initial_player_def)

subsection \<open>Odd payloads\<close>

text \<open>
  C2, as the code has it. For every payload that \<open>atob\<close> decodes to an odd number of bytes,
  \<open>decodeAudio\<close> returns normally: the 16-bit view cannot be built (\<open>RangeError\<close>), the
  exception is caught, the error flag is raised and no buffer is stored, so no sample is
  produced at all.
\<close>

theorem decodeAudio_odd_payload:
  assumes "atob base64Audio = Inr binaryString"
    and "odd (length binaryString)"
  shows "decode_samples base64Audio = Inl RangeError
         \<and> hasError (decodeAudio fresh base64Audio st)
         \<and> audioBufferRef (decodeAudio fresh base64Audio st) = audioBufferRef st"
  using decode_samples_odd [OF assms]
  by (simp add: decodeAudio_def Let_def split: option.splits)

text \<open>Witness for C2: the payload \<open>AAAA\<close> is three zero bytes.\<close>

theorem decodeAudio_odd_payload_witness:
  "atob ''AAAA'' = Inr [CHR 0x00, CHR 0x00, CHR 0x00]
   \<and> odd (length [CHR 0x00, CHR 0x00, CHR 0x00])
   \<and> hasError (decodeAudio Suspended ''AAAA'' initial_player)
   \<and> audioBufferRef (decodeAudio Suspended ''AAAA'' initial_player) = None"
proof -
  have a: "atob ''AAAA'' = Inr [CHR 0x00, CHR 0x00, CHR 0x00]"
    by (simp add: atob_unfold)
  have o: "odd (length [CHR 0x00, CHR 0x00, CHR 0x00])" by simp
  show ?thesis
    using decodeAudio_odd_payload [OF a o, of Suspended initial_player] a o
    by (simp add: initial_player_def)
qed

text \<open>
  Counterexample to C2 as stated: three bytes would leave one sample after dropping the
  odd byte, but no buffer is produced.
\<close>

theorem decodeAudio_odd_payload_counterexample:
  "atob ''AAAA'' = Inr [CHR 0x00, CHR 0x00, CHR 0x00]
   \<and> length [CHR 0x00, CHR 0x00, CHR 0x00] div 2 = (1 :: nat)
   \<and> audioBufferRef (decodeAudio Suspended ''AAAA'' initial_player) = None
   \<and> hasError (decodeAudio Suspended ''AAAA'' initial_player)"
  using decode_samples_odd [OF atob_three_bytes]
  by (simp add: atob_three_bytes decodeAudio_def initial_player_def)

section \<open>The playback controller\<close>

lemma play_ready:
  assumes "audioBufferRef st = Some buf"
    and "audioContextRef st = Some ctx"
    and "0 \<le> pauseTimeRef st"
  shows "play currentTime st =
           st\<lparr>audioContextRef := Some Running,
              sourceRef := Some \<lparr>buffer = Some buf, connected = True,
                                 playback = Playing (pauseTimeRef st), has_onended = True\<rparr>,
              startTimeRef := currentTime - pauseTimeRef st,
              isPlaying := True\<rparr>"
  using assms by (simp add: play_def node_start_def Let_def)

text \<open>
  \<open>pause\<close> stores the elapsed offset, current time minus start reference: after \<open>t\<close>
  seconds of playback the stored offset has grown by \<open>t\<close>.
\<close>

lemma pause_stores_elapsed:
  assumes "audioBufferRef st = Some buf"
    and "audioContextRef st = Some ctx"
    and "0 \<le> pauseTimeRef st"
  shows "pauseTimeRef (pause (t0 + t) (play t0 st)) = pauseTimeRef st + t"
  by (simp add: play_ready [OF assms] pause_def node_stop_def Let_def)

text \<open>
  If \<open>play\<close> follows \<open>pause\<close> before the \<open>ended\<close> event of the stopped node has been
  dispatched, playback resumes at the stored offset.
\<close>

lemma resume_without_ended:
  assumes "audioBufferRef st = Some buf"
    and "audioContextRef st = Some ctx"
    and "pauseTimeRef st = 0"
    and "0 \<le> t"
  shows "started_offset (play t1 (pause (t0 + t) (play t0 st))) = Some t"
proof -
  have p: "0 \<le> pauseTimeRef st" using assms(3) by simp
  let ?s2 = "pause (t0 + t) (play t0 st)"
  have "audioBufferRef ?s2 = Some buf" "audioContextRef ?s2 = Some Running"
    "pauseTimeRef ?s2 = t"
    using assms(1,3)
    by (simp_all add: play_ready [OF assms(1,2) p] pause_def node_stop_def Let_def)
  then show ?thesis
    using assms(4) play_ready [of ?s2 buf Running t1]
    by (simp add: started_offset_def)
qed

text \<open>
  Once the \<open>ended\<close> event of the node stopped by \<open>pause\<close> has been dispatched, the next
  \<open>play\<close> starts at offset 0, whatever the buffer: for every pause after \<open>t\<close> seconds,
  \<open>t\<close> shorter than the buffer, the elapsed offset \<open>t\<close> is stored and then lost.
\<close>

lemma restart_after_pause_any_buffer:
  assumes "audioBufferRef st = Some buf"
    and "audioContextRef st = Some ctx"
    and "sourceRef st = None"
    and "pauseTimeRef st = 0"
    and "0 \<le> t" and "t < duration buf" and "t0 + t \<le> t1"
  shows "pauseTimeRef (session [(t0, Play), (t0 + t, Pause)] st) = t
         \<and> started_offset (session [(t0, Play), (t0 + t, Pause), (t1, Play)] st) = Some 0"
  using assms
  by (simp add: session_def deliver_ended_def ended_due_def play_def pause_def onended_def
      node_start_def node_stop_def started_offset_def Let_def)

text \<open>
  C1 at its failing input: a decoded buffer of three seconds, \<open>play\<close> at clock 10,
  \<open>pause\<close> at clock 12.5, \<open>play\<close> at clock 20. At 12.5 the buffer has not run out and
  no \<open>ended\<close> event is due, so \<open>pause\<close> acts on the playing node and stores the elapsed
  offset 2.5. \<open>pause\<close> has called \<^verbatim>\<open>stop()\<close> on the node, so its \<open>ended\<close> event is due
  afterwards and the handler installed by \<open>play\<close> runs; the \<open>play\<close> at clock 20 starts
  the buffer at offset 0, not at 2.5.
\<close>

theorem resume_after_ended_restarts:
  "audioBufferRef (decodeAudio Suspended long_payload initial_player) = Some three_seconds
   \<and> duration three_seconds = 3
   \<and> isPlaying (session [(10, Play)] (decodeAudio Suspended long_payload initial_player))
   \<and> \<not> ended_due 12.5 (session [(10, Play)] (decodeAudio Suspended long_payload initial_player))
   \<and> pauseTimeRef (session [(10, Play), (12.5, Pause)]
        (decodeAudio Suspended long_payload initial_player)) = 2.5
   \<and> ended_due 20 (session [(10, Play), (12.5, Pause)]
        (decodeAudio Suspended long_payload initial_player))
   \<and> started_offset (session [(10, Play), (12.5, Pause), (20, Play)]
        (decodeAudio Suspended long_payload initial_player)) = Some 0"
  by (simp add: decodeAudio_long_payload duration_three_seconds session_def deliver_ended_def
      ended_due_def play_def pause_def onended_def node_start_def node_stop_def
      started_offset_def Let_def)

text \<open>
  C7. \<open>stop\<close> leaves \<open>isPlaying\<close> false and the offset 0 in every state, also when applied
  twice; an exception of the node's \<^verbatim>\<open>stop()\<close> is swallowed and the two writes still
  happen. The \<open>ended\<close> handler does the same reset, and a \<open>play\<close> after it starts the buffer
  at offset 0, with the current clock as start reference.
\<close>

theorem stop_and_ended_reset:
  "isPlaying (stop st) = False \<and> pauseTimeRef (stop st) = 0
   \<and> isPlaying (stop (stop st)) = False \<and> pauseTimeRef (stop (stop st)) = 0
   \<and> (sourceRef st = Some node \<longrightarrow> node_stop node = Inl e \<longrightarrow>
        stop st = st\<lparr>pauseTimeRef := 0, isPlaying := False\<rparr>)
   \<and> isPlaying (onended st) = False \<and> pauseTimeRef (onended st) = 0
   \<and> (audioBufferRef st \<noteq> None \<longrightarrow> audioContextRef st \<noteq> None \<longrightarrow>
        started_offset (play currentTime (onended st)) = Some 0
        \<and> startTimeRef (play currentTime (onended st)) = currentTime)"
proof -
  have s: "isPlaying (stop s) = False \<and> pauseTimeRef (stop s) = 0" for s
    by (simp add: stop_def Let_def split: option.splits sum.splits)
  have e: "sourceRef st = Some node \<longrightarrow> node_stop node = Inl e \<longrightarrow>
        stop st = st\<lparr>pauseTimeRef := 0, isPlaying := False\<rparr>"
    by (simp add: stop_def)
  have p: "audioBufferRef st \<noteq> None \<longrightarrow> audioContextRef st \<noteq> None \<longrightarrow>
        started_offset (play currentTime (onended st)) = Some 0
        \<and> startTimeRef (play currentTime (onended st)) = currentTime"
    by (auto simp: play_def onended_def node_start_def started_offset_def Let_def)
  show ?thesis
    using s [of st] s [of "stop st"] e p by (simp add: onended_def)
qed

text \<open>
  Witness for C7: a player whose source node was never started, so that the node's
  \<^verbatim>\<open>stop()\<close> throws.
\<close>

theorem stop_and_ended_reset_witness:
  "sourceRef failed_start =
     Some \<lparr>buffer = Some silence, connected = True, playback = Unstarted, has_onended = False\<rparr>
   \<and> node_stop \<lparr>buffer = Some silence, connected = True, playback = Unstarted,
                 has_onended = False\<rparr> = Inl InvalidStateError
   \<and> audioBufferRef failed_start \<noteq> None \<and> audioContextRef failed_start \<noteq> None
   \<and> stop failed_start = failed_start\<lparr>pauseTimeRef := 0, isPlaying := False\<rparr>
   \<and> pauseTimeRef (stop (stop failed_start)) = 0
   \<and> started_offset (play 30 (onended failed_start)) = Some 0"
proof -
  have h: "sourceRef failed_start =
      Some \<lparr>buffer = Some silence, connected = True, playback = Unstarted, has_onended = False\<rparr>"
    "node_stop \<lparr>buffer = Some silence, connected = True, playback = Unstarted,
                has_onended = False\<rparr> = Inl InvalidStateError"
    "audioBufferRef failed_start \<noteq> None" "audioContextRef failed_start \<noteq> None"
    by (simp_all add: failed_start_def node_stop_def)
  show ?thesis
    using stop_and_ended_reset [of failed_start
        "\<lparr>buffer = Some silence, connected = True, playback = Unstarted, has_onended = False\<rparr>"
        InvalidStateError 30] h
    by blast
qed

section \<open>The generation pipeline\<close>

subsection \<open>Concrete replies\<close>

lemma shown_eq:
  "shown = \<lparr>query = ''Explain MoE routing'', appState = COMPLETED,
            content = Some \<lparr>text' = JString ''# MoE'',
                             spatialDescription = JString ''Flow starts top-left'',
                             imageUrl = None, audioUrl = None\<rparr>,
            error = None, console = []\<rparr>"
  by (simp add: shown_def handleProcess_def handleProcess_resume_def handleProcess_start_def
      generateExplanation_def explanation_try_def asked_def initial_app_def moe_response_def
      Let_def)

lemma generateDiagram_png:
  "generateDiagram png_reply = ([], Inr ''data:image/png;base64,iVBORw0KGgo='')"
  by (simp add: generateDiagram_def diagram_try_def png_reply_def)

lemma generateSpeech_pcm: "generateSpeech pcm_reply = ([], Inr (Some ''AID/fw==''))"
  by (simp add: generateSpeech_def speech_try_def pcm_reply_def)

subsection \<open>Stage 2: the explanation\<close>

lemma get_prop_string_object:
  "get_prop v key = Inr (JString s) \<Longrightarrow> \<exists>props. v = JObject props"
  by (cases v) simp_all

lemma resume_completed:
  assumes "get_prop v ''explanation'' = Inr (JString e)"
  shows "\<exists>spatial prompt.
           get_prop v ''spatialDescription'' = Inr spatial
           \<and> get_prop v ''imagePrompt'' = Inr prompt
           \<and> handleProcess_resume ([], Inr v) st =
               (st\<lparr>content := Some \<lparr>text' = JString e, spatialDescription = spatial,
                                     imageUrl = None, audioUrl = None\<rparr>,
                   appState := COMPLETED\<rparr>,
                [GenerateDiagram prompt,
                 GenerateSpeech (generateSpeech_request (JString (take 800 e)))])"
proof -
  obtain props where v: "v = JObject props"
    using get_prop_string_object [OF assms] by blast
  show ?thesis
    using assms unfolding v
    by (simp add: handleProcess_resume_def Let_def)
qed

text \<open>
  Counterexample to C3 as stated: a JSON response without \<open>spatialDescription\<close> is not
  treated as a failure. The phase becomes \<open>COMPLETED\<close>, no error is set, and the aggregate
  is rendered with an undefined spatial description.
\<close>

theorem missing_field_completes_counterexample:
  "appState (fst (handleProcess
      (Inr (Parsed (JObject [(''explanation'', JString ''# MoE''),
                             (''imagePrompt'', JString ''flowchart of router'')]))) asked))
     = COMPLETED
   \<and> content (fst (handleProcess
      (Inr (Parsed (JObject [(''explanation'', JString ''# MoE''),
                             (''imagePrompt'', JString ''flowchart of router'')]))) asked))
     = Some \<lparr>text' = JString ''# MoE'', spatialDescription = JUndefined,
             imageUrl = None, audioUrl = None\<rparr>
   \<and> error (fst (handleProcess
      (Inr (Parsed (JObject [(''explanation'', JString ''# MoE''),
                             (''imagePrompt'', JString ''flowchart of router'')]))) asked))
     = None"
  by (simp add: handleProcess_def handleProcess_resume_def handleProcess_start_def
      generateExplanation_def explanation_try_def asked_def initial_app_def Let_def)

text \<open>
  C3, as the code has it. If the explanation call is rejected, or its response has no text,
  or the text is not JSON, the stage fails as a whole: the phase becomes \<open>ERROR\<close>, the
  generic message is set, the result aggregate stays empty and neither the diagram nor the
  speech call is issued.
\<close>

theorem explanation_failure_aborts:
  assumes "query st \<noteq> []" and "explanation_try reply = Inl e"
  shows "appState (fst (handleProcess reply st)) = ERROR
         \<and> error (fst (handleProcess reply st)) =
             Some ''Failed to generate content. Please try again or check your API key.''
         \<and> content (fst (handleProcess reply st)) = None
         \<and> snd (handleProcess reply st) = []"
  using assms
  by (simp add: handleProcess_def handleProcess_resume_def handleProcess_start_def
      handleProcess_catch_def generateExplanation_def Let_def)

text \<open>Witness for C3: a response whose text is not JSON.\<close>

theorem explanation_failure_aborts_witness:
  "query asked \<noteq> [] \<and> explanation_try (Inr NotJSON) = Inl SyntaxError
   \<and> appState (fst (handleProcess (Inr NotJSON) asked)) = ERROR
   \<and> error (fst (handleProcess (Inr NotJSON) asked)) =
       Some ''Failed to generate content. Please try again or check your API key.''
   \<and> content (fst (handleProcess (Inr NotJSON) asked)) = None
   \<and> snd (handleProcess (Inr NotJSON) asked) = []"
proof -
  have q: "query asked \<noteq> []" by (simp add: asked_def initial_app_def)
  have t: "explanation_try (Inr NotJSON) = Inl SyntaxError" by (simp add: explanation_try_def)
  show ?thesis using explanation_failure_aborts [OF q t] q t by simp
qed

text \<open>
  C8. Whenever the response carries an explanation string, the speech call is issued with
  that string cut to its first 800 characters as the only content, the voice \<open>Fenrir\<close> and
  audio as the only response modality.
\<close>

theorem speech_input_truncated:
  assumes "get_prop v ''explanation'' = Inr (JString e)"
  shows "\<exists>prompt. snd (handleProcess_resume ([], Inr v) st) =
           [GenerateDiagram prompt,
            GenerateSpeech \<lparr>model = ''gemini-2.5-flash-preview-tts'',
                            contents = [[JString (take 800 e)]],
                            responseModalities = [AUDIO], voiceName = ''Fenrir''\<rparr>]"
  using resume_completed [OF assms, of st]
  by (auto simp: generateSpeech_request_def)

text \<open>Witness for C8: an explanation of 1000 characters is cut to 800.\<close>

theorem speech_input_truncated_witness:
  "get_prop long_response ''explanation'' = Inr (JString (replicate 1000 (CHR ''x'')))
   \<and> (\<exists>prompt. snd (handleProcess_resume ([], Inr long_response) asked) =
        [GenerateDiagram prompt,
         GenerateSpeech \<lparr>model = ''gemini-2.5-flash-preview-tts'',
                         contents = [[JString (replicate 800 (CHR ''x''))]],
                         responseModalities = [AUDIO], voiceName = ''Fenrir''\<rparr>])"
proof -
  have g: "get_prop long_response ''explanation'' = Inr (JString (replicate 1000 (CHR ''x'')))"
    by (simp add: long_response_def)
  have t: "take 800 (replicate 1000 (CHR ''x'')) = replicate 800 (CHR ''x'')"
    by simp
  show ?thesis
    using speech_input_truncated [OF g, of asked] g unfolding t by simp
qed

subsection \<open>Stage 3: diagram and speech\<close>

lemma diagram_settled_frame:
  "appState (diagram_settled x st) = appState st
   \<and> error (diagram_settled x st) = error st
   \<and> query (diagram_settled x st) = query st
   \<and> map_option kept_by_diagram (content (diagram_settled x st))
       = map_option kept_by_diagram (content st)"
  by (simp add: diagram_settled_def diagram_then_def diagram_catch_def kept_by_diagram_def
      Let_def split: sum.splits option.splits)

lemma speech_settled_frame:
  "appState (speech_settled x st) = appState st
   \<and> error (speech_settled x st) = error st
   \<and> query (speech_settled x st) = query st
   \<and> map_option kept_by_speech (content (speech_settled x st))
       = map_option kept_by_speech (content st)"
  by (simp add: speech_settled_def speech_then_def speech_catch_def kept_by_speech_def
      Let_def split: sum.splits option.splits)

text \<open>
  C4. With a non-empty query and a response that carries an explanation string,
  \<open>handleProcess\<close> ends in phase \<open>COMPLETED\<close> with the aggregate holding the explanation and
  no URL yet. Whatever the diagram promise or the speech promise settles with, and in
  whatever state, the phase is unchanged and every field of the aggregate other than the
  promise's own is unchanged; a non-empty result on a present aggregate writes exactly its
  own field.
\<close>

theorem completed_then_disjoint_updates:
  "(query st \<noteq> [] \<longrightarrow> get_prop v ''explanation'' = Inr (JString e) \<longrightarrow>
      appState (fst (handleProcess (Inr (Parsed v)) st)) = COMPLETED
      \<and> (\<exists>c. content (fst (handleProcess (Inr (Parsed v)) st)) = Some c
             \<and> text' c = JString e \<and> imageUrl c = None \<and> audioUrl c = None))
   \<and> appState (diagram_settled d st) = appState st
   \<and> map_option kept_by_diagram (content (diagram_settled d st))
        = map_option kept_by_diagram (content st)
   \<and> (content st = Some c \<longrightarrow> snd d = Inr url \<longrightarrow> url \<noteq> [] \<longrightarrow>
        content (diagram_settled d st) = Some (c\<lparr>imageUrl := Some url\<rparr>))
   \<and> appState (speech_settled s st) = appState st
   \<and> map_option kept_by_speech (content (speech_settled s st))
        = map_option kept_by_speech (content st)
   \<and> (content st = Some c \<longrightarrow> snd s = Inr (Some b) \<longrightarrow> b \<noteq> [] \<longrightarrow>
        content (speech_settled s st) = Some (c\<lparr>audioUrl := Some b\<rparr>))"
proof -
  have a: "query st \<noteq> [] \<longrightarrow> get_prop v ''explanation'' = Inr (JString e) \<longrightarrow>
      appState (fst (handleProcess (Inr (Parsed v)) st)) = COMPLETED
      \<and> (\<exists>c. content (fst (handleProcess (Inr (Parsed v)) st)) = Some c
             \<and> text' c = JString e \<and> imageUrl c = None \<and> audioUrl c = None)"
  proof (intro impI)
    assume q: "query st \<noteq> []" and g: "get_prop v ''explanation'' = Inr (JString e)"
    from resume_completed [OF g, of "handleProcess_start st"]
    show "appState (fst (handleProcess (Inr (Parsed v)) st)) = COMPLETED
      \<and> (\<exists>c. content (fst (handleProcess (Inr (Parsed v)) st)) = Some c
             \<and> text' c = JString e \<and> imageUrl c = None \<and> audioUrl c = None)"
      using q by (auto simp: handleProcess_def generateExplanation_def explanation_try_def)
  qed
  have d: "content st = Some c \<longrightarrow> snd d = Inr url \<longrightarrow> url \<noteq> [] \<longrightarrow>
        content (diagram_settled d st) = Some (c\<lparr>imageUrl := Some url\<rparr>)"
    by (simp add: diagram_settled_def diagram_then_def Let_def)
  have s: "content st = Some c \<longrightarrow> snd s = Inr (Some b) \<longrightarrow> b \<noteq> [] \<longrightarrow>
        content (speech_settled s st) = Some (c\<lparr>audioUrl := Some b\<rparr>)"
    by (simp add: speech_settled_def speech_then_def Let_def)
  show ?thesis
    using a d s diagram_settled_frame [of d st] speech_settled_frame [of s st] by blast
qed

text \<open>
  Witness for C4: the scenario of the specification, on the state that already shows the
  explanation. The diagram and the speech result each attach to it without disturbing the
  text or the phase.
\<close>

theorem completed_then_disjoint_updates_witness:
  "query shown \<noteq> [] \<and> get_prop moe_response ''explanation'' = Inr (JString ''# MoE'')
   \<and> content shown = Some \<lparr>text' = JString ''# MoE'',
                             spatialDescription = JString ''Flow starts top-left'',
                             imageUrl = None, audioUrl = None\<rparr>
   \<and> snd (generateDiagram png_reply) = Inr ''data:image/png;base64,iVBORw0KGgo=''
   \<and> snd (generateSpeech pcm_reply) = Inr (Some ''AID/fw=='')
   \<and> appState (fst (handleProcess (Inr (Parsed moe_response)) shown)) = COMPLETED
   \<and> appState (diagram_settled (generateDiagram png_reply) shown) = COMPLETED
   \<and> content (diagram_settled (generateDiagram png_reply) shown) =
        Some \<lparr>text' = JString ''# MoE'',
              spatialDescription = JString ''Flow starts top-left'',
              imageUrl = Some ''data:image/png;base64,iVBORw0KGgo='', audioUrl = None\<rparr>
   \<and> appState (speech_settled (generateSpeech pcm_reply) shown) = COMPLETED
   \<and> content (speech_settled (generateSpeech pcm_reply) shown) =
        Some \<lparr>text' = JString ''# MoE'',
              spatialDescription = JString ''Flow starts top-left'',
              imageUrl = None, audioUrl = Some ''AID/fw==''\<rparr>"
proof -
  let ?c = "\<lparr>text' = JString ''# MoE'', spatialDescription = JString ''Flow starts top-left'',
             imageUrl = None, audioUrl = None\<rparr>"
  have q: "query shown \<noteq> []" by (simp add: shown_eq)
  have g: "get_prop moe_response ''explanation'' = Inr (JString ''# MoE'')"
    by (simp add: moe_response_def)
  have c: "content shown = Some ?c" by (simp add: shown_eq)
  have d: "snd (generateDiagram png_reply) = Inr ''data:image/png;base64,iVBORw0KGgo=''"
    by (simp add: generateDiagram_png)
  have s: "snd (generateSpeech pcm_reply) = Inr (Some ''AID/fw=='')"
    by (simp add: generateSpeech_pcm)
  have n: "''data:image/png;base64,iVBORw0KGgo='' \<noteq> []" "''AID/fw=='' \<noteq> []" by simp_all
  have a: "appState shown = COMPLETED" by (simp add: shown_eq)
  from completed_then_disjoint_updates [of shown moe_response "''# MoE''"
      "generateDiagram png_reply" ?c "''data:image/png;base64,iVBORw0KGgo=''"
      "generateSpeech pcm_reply" "''AID/fw==''"] q g c d s n a
  show ?thesis by simp
qed

text \<open>
  An exception inside a service function (the remote call is rejected; for the diagram
  also a reply without image data) changes nothing but the console, which gains the one
  line written by the service function: the aggregate, the phase and the error message
  are as before. A speech reply without audio changes nothing at all.
\<close>

lemma stage3_exception_only_logged:
  "(diagram_try reply = Inl e \<longrightarrow>
      diagram_settled (generateDiagram reply) st =
        st\<lparr>console := console st @ [(''Image generation failed'', e)]\<rparr>)
   \<and> (speech_try reply = Inl e \<longrightarrow>
      speech_settled (generateSpeech reply) st =
        st\<lparr>console := console st @ [(''Speech generation failed'', e)]\<rparr>)
   \<and> (speech_try reply = Inr None \<longrightarrow> speech_settled (generateSpeech reply) st = st)"
  by (simp add: diagram_settled_def generateDiagram_def diagram_then_def
      speech_settled_def generateSpeech_def speech_then_def Let_def)

text \<open>
  C5 at its failing input: the speech call is answered with a reply whose only part
  carries no inline data. The speech stage has failed, \<open>audioUrl\<close> stays unset, the
  phase, the error message and the displayed text are untouched, but nothing is logged:
  the console is as empty as before. \<open>generateDiagram\<close> given the same reply throws, and
  its failure is logged.
\<close>

theorem speech_without_audio_unlogged:
  "snd (generateSpeech text_only_reply) = Inr None
   \<and> speech_settled (generateSpeech text_only_reply) shown = shown
   \<and> console (speech_settled (generateSpeech text_only_reply) shown) = []
   \<and> map_option audioUrl (content (speech_settled (generateSpeech text_only_reply) shown))
       = Some None
   \<and> appState (speech_settled (generateSpeech text_only_reply) shown) = COMPLETED
   \<and> diagram_settled (generateDiagram text_only_reply) shown =
        shown\<lparr>console :=
                 [(''Image generation failed'', Error ''No image data found in response.'')]\<rparr>"
  by (simp add: shown_eq text_only_reply_def generateSpeech_def speech_try_def
      speech_settled_def speech_then_def generateDiagram_def diagram_try_def
      diagram_settled_def diagram_then_def Let_def)

subsection \<open>Absent aggregates and empty results\<close>

lemma diagram_settled_absent: "content st = None \<Longrightarrow> content (diagram_settled x st) = None"
  by (simp add: diagram_settled_def diagram_then_def diagram_catch_def Let_def split: sum.splits)

lemma speech_settled_absent: "content st = None \<Longrightarrow> content (speech_settled x st) = None"
  by (simp add: speech_settled_def speech_then_def speech_catch_def Let_def
      split: sum.splits option.splits)

lemma diagram_settled_urls: "urls_nonempty st \<Longrightarrow> urls_nonempty (diagram_settled x st)"
  by (auto simp: urls_nonempty_def diagram_settled_def diagram_then_def diagram_catch_def Let_def
      split: sum.splits option.splits)

lemma speech_settled_urls: "urls_nonempty st \<Longrightarrow> urls_nonempty (speech_settled x st)"
  by (auto simp: urls_nonempty_def speech_settled_def speech_then_def speech_catch_def Let_def
      split: sum.splits option.splits)

lemma handleProcess_resume_urls:
  "urls_nonempty st \<Longrightarrow> urls_nonempty (fst (handleProcess_resume x st))"
  by (auto simp: urls_nonempty_def handleProcess_resume_def handleProcess_catch_def Let_def
      split: sum.splits option.splits)

lemma step_urls: "urls_nonempty st \<Longrightarrow> urls_nonempty (step ev st)"
proof (cases ev)
  case (TextChange v)
  assume "urls_nonempty st"
  then show ?thesis unfolding TextChange
    by (simp add: urls_nonempty_def handleTextChange_def Let_def split: option.splits)
next
  case ProcessStart
  assume "urls_nonempty st"
  then show ?thesis unfolding ProcessStart
    by (simp add: urls_nonempty_def handleProcess_start_def)
next
  case (ExplanationSettled r)
  assume "urls_nonempty st"
  then show ?thesis unfolding ExplanationSettled
    by (simp add: handleProcess_resume_urls)
next
  case (DiagramSettled r)
  assume "urls_nonempty st"
  then show ?thesis unfolding DiagramSettled by (simp add: diagram_settled_urls)
next
  case (SpeechSettled r)
  assume "urls_nonempty st"
  then show ?thesis unfolding SpeechSettled by (simp add: speech_settled_urls)
qed

lemma run_urls: "urls_nonempty st \<Longrightarrow> urls_nonempty (run evs st)"
  unfolding run_def by (induction evs arbitrary: st) (simp_all add: step_urls)

lemma initial_urls: "urls_nonempty initial_app"
  by (simp add: urls_nonempty_def initial_app_def)

text \<open>
  C9. A diagram or speech promise that settles while the aggregate is absent leaves it
  absent, whatever it settles with; and after any sequence of query edits, starts of
  \<open>handleProcess\<close> and settled calls, from the initial state, neither \<open>imageUrl\<close> nor
  \<open>audioUrl\<close> holds the empty string.
\<close>

theorem late_results_preserve_absence:
  "(content st = None \<longrightarrow>
      content (diagram_settled d st) = None \<and> content (speech_settled s st) = None)
   \<and> urls_nonempty (run evs initial_app)"
  using diagram_settled_absent [of st d] speech_settled_absent [of st s]
    run_urls [OF initial_urls, of evs]
  by blast

text \<open>
  Witness for C9: results that arrive after a new query has discarded the aggregate, and
  a run in which the diagram reply carries an empty string.
\<close>

theorem late_results_preserve_absence_witness:
  "content discarded = None
   \<and> content (diagram_settled (generateDiagram png_reply) discarded) = None
   \<and> content (speech_settled (generateSpeech pcm_reply) discarded) = None
   \<and> urls_nonempty (run [TextChange ''q'', ProcessStart,
        ExplanationSettled (Inr (Parsed moe_response)),
        DiagramSettled (Inr (Some [\<lparr>inlineData = Some \<lparr>data = Some []\<rparr>\<rparr>])),
        SpeechSettled pcm_reply] initial_app)"
proof -
  have c: "content discarded = None"
    by (simp add: discarded_def handleProcess_start_def)
  show ?thesis
    using late_results_preserve_absence [of discarded "generateDiagram png_reply"
        "generateSpeech pcm_reply"
        "[TextChange ''q'', ProcessStart, ExplanationSettled (Inr (Parsed moe_response)),
          DiagramSettled (Inr (Some [\<lparr>inlineData = Some \<lparr>data = Some []\<rparr>\<rparr>])),
          SpeechSettled pcm_reply]"] c
    by blast
qed

text \<open>
  C10. \<open>generateDiagram\<close> and \<open>generateSpeech\<close> settle fulfilled for every reply: an
  exception inside \<open>generateDiagram\<close> gives the empty string, one inside \<open>generateSpeech\<close>
  gives \<^verbatim>\<open>null\<close>. So the \<^verbatim>\<open>.catch\<close> handlers of \<open>handleProcess\<close> never run: the only
  console lines a settled promise adds are those of the service function itself.
\<close>

theorem services_never_reject:
  "(\<exists>url. snd (generateDiagram reply) = Inr url)
   \<and> (diagram_try reply = Inl e \<longrightarrow> snd (generateDiagram reply) = Inr [])
   \<and> (\<exists>audio. snd (generateSpeech reply) = Inr audio)
   \<and> (speech_try reply = Inl e \<longrightarrow> snd (generateSpeech reply) = Inr None)
   \<and> console (diagram_settled (generateDiagram reply) st)
        = console st @ fst (generateDiagram reply)
   \<and> console (speech_settled (generateSpeech reply) st)
        = console st @ fst (generateSpeech reply)"
proof -
  have d: "\<exists>url. snd (generateDiagram reply) = Inr url"
    by (cases "diagram_try reply") (simp_all add: generateDiagram_def)
  have s: "\<exists>audio. snd (generateSpeech reply) = Inr audio"
    by (cases "speech_try reply") (simp_all add: generateSpeech_def)
  have dl: "console (diagram_settled (generateDiagram reply) st)
        = console st @ fst (generateDiagram reply)"
    using d by (auto simp: diagram_settled_def diagram_then_def Let_def split: option.splits)
  have sl: "console (speech_settled (generateSpeech reply) st)
        = console st @ fst (generateSpeech reply)"
    using s by (auto simp: speech_settled_def speech_then_def Let_def split: option.splits)
  show ?thesis
    using d s dl sl by (simp add: generateDiagram_def generateSpeech_def)
qed

text \<open>Witness for C10: both remote calls rejected.\<close>

theorem services_never_reject_witness:
  "diagram_try (Inl Rejection) = Inl Rejection \<and> speech_try (Inl Rejection) = Inl Rejection
   \<and> snd (generateDiagram (Inl Rejection)) = Inr []
   \<and> snd (generateSpeech (Inl Rejection)) = Inr None
   \<and> console (diagram_settled (generateDiagram (Inl Rejection)) shown)
        = [(''Image generation failed'', Rejection)]"
proof -
  have d: "diagram_try (Inl Rejection) = Inl Rejection" by (simp add: diagram_try_def)
  have s: "speech_try (Inl Rejection) = Inl Rejection" by (simp add: speech_try_def)
  have c: "console shown = []" by (simp add: shown_eq)
  have l: "fst (generateDiagram (Inl Rejection)) = [(''Image generation failed'', Rejection)]"
    by (simp add: generateDiagram_def diagram_try_def)
  show ?thesis
    using services_never_reject [of "Inl Rejection" Rejection shown] d s c l
    by simp
qed

end
